theory Spec2Isabelle
  imports Main
begin

section \<open>The rule prefer-function-type, embedded from prefer-function-type.ts\<close>

text \<open>
  The rule visits interface declarations and type literals of a parsed TypeScript file.
  When the only member is a call or construct signature with a written return type, it
  reports the member and offers a fix that replaces the declaration by a function type.
  The embedding follows the source function by function. A JavaScript exception
  (reading a property of \<open>undefined\<close>) is the value \<open>Inl TypeError\<close>.
\<close>

subsection \<open>Syntax tree and source code\<close>

text \<open>
  Modelled from the spec: the enumeration \<open>AST_NODE_TYPES\<close> is declared in the parser
  package, which is not among the sources here. The node kinds below are the ones the
  rule names, the kinds of the other members of an interface body, and kinds that can
  stand above or below a type literal; the rule treats all kinds it does not name alike.
\<close>

datatype AST_NODE_TYPES =
    Identifier | MemberExpression | Program | BlockStatement
  | ExportNamedDeclaration | ExportDefaultDeclaration | VariableDeclarator
  | TSAnyKeyword | TSArrayType | TSAsExpression | TSCallSignatureDeclaration
  | TSConditionalType | TSConstructSignatureDeclaration | TSConstructorType
  | TSFunctionType | TSIndexSignature | TSIndexedAccessType | TSInterfaceBody
  | TSInterfaceDeclaration | TSInterfaceHeritage | TSIntersectionType
  | TSMethodSignature | TSModuleBlock | TSNumberKeyword | TSOptionalType
  | TSParenthesizedType | TSPropertySignature | TSQualifiedName | TSRestType
  | TSStringKeyword | TSThisType | TSTupleType | TSTypeAliasDeclaration
  | TSTypeAnnotation | TSTypeLiteral | TSTypeOperator | TSTypeParameter
  | TSTypeParameterDeclaration | TSTypeParameterInstantiation | TSTypeReference
  | TSUnionType | TSVoidKeyword

text \<open>
  Modelled from the spec: the enumeration \<open>AST_TOKEN_TYPES\<close> of the parser package, with
  the suffix \<open>Token\<close> on each name.
\<close>

datatype AST_TOKEN_TYPES =
    BooleanToken | IdentifierToken | KeywordToken | NullToken | NumericToken
  | PunctuatorToken | StringToken | TemplateToken | BlockToken | LineToken

text \<open>A range is a pair of offsets into the source text: start and end.\<close>

type_synonym Range = "nat \<times> nat"

record Token =
  tok_type :: AST_TOKEN_TYPES
  tok_value :: string
  tok_range :: Range

text \<open>
  The source code object of the host: the text of the file and its tokens in the order
  of the text. \<open>getTokens\<close> of the host returns the tokens that lie within a node.
\<close>

record SourceCode =
  sc_text :: string
  sc_tokens :: "Token list"

definition getText :: "SourceCode \<Rightarrow> string" where
  "getText sourceCode = sc_text sourceCode"

definition getTokens :: "SourceCode \<Rightarrow> Range \<Rightarrow> Token list" where
  "getTokens sourceCode r =
     filter (\<lambda>t. fst r \<le> fst (tok_range t) \<and> snd (tok_range t) \<le> snd r)
       (sc_tokens sourceCode)"

text \<open>
  A type node, as \<open>getReturnType\<close> reads it: its kind, its range, and the two children
  the function follows. \<open>typeAnnotation\<close> is the child of a \<open>TSTypeAnnotation\<close> node,
  \<open>returnType\<close> the (optional) return type annotation of a \<open>TSFunctionType\<close> node.
\<close>

datatype TypeNode =
  TypeNode (ty_type: AST_NODE_TYPES) (ty_range: Range)
    (ty_typeAnnotation: "TypeNode option") (ty_returnType: "TypeNode option")

record Identifier_node =
  id_name :: string
  id_range :: Range

text \<open>
  The expression of an extends clause: its kind and, for an identifier, its name.
\<close>

record Expression_node =
  ex_type :: AST_NODE_TYPES
  ex_name :: "string option"

record TSInterfaceHeritage_node =
  h_expression :: Expression_node

text \<open>A parameter of a signature, with its optional type annotation.\<close>

record Parameter_node =
  p_type :: AST_NODE_TYPES
  p_typeAnnotation :: "TypeNode option"

text \<open>
  A member of an interface body or of a type literal. \<open>m_returnType\<close> is the
  \<open>TSTypeAnnotation\<close> node of the written return type, when there is one.
\<close>

record TypeElement =
  m_type :: AST_NODE_TYPES
  m_range :: Range
  m_params :: "Parameter_node list"
  m_returnType :: "TypeNode option"

text \<open>
  The two nodes the rule visits. \<open>parent\<close> is the kind of the node above, when there is
  one; \<open>typeParameters\<close> is the range of the type parameter declaration, when there is
  one; \<open>i_body\<close> is \<open>node.body.body\<close>.
\<close>

record TSInterfaceDeclaration_node =
  i_range :: Range
  i_parent :: "AST_NODE_TYPES option"
  i_id :: Identifier_node
  i_typeParameters :: "Range option"
  i_extends :: "TSInterfaceHeritage_node list option"
  i_body :: "TypeElement list"

record TSTypeLiteral_node =
  l_range :: Range
  l_parent :: "AST_NODE_TYPES option"
  l_members :: "TypeElement list"

datatype Node =
    InterfaceDeclaration TSInterfaceDeclaration_node
  | TypeLiteral TSTypeLiteral_node

fun node_type :: "Node \<Rightarrow> AST_NODE_TYPES" where
  "node_type (InterfaceDeclaration n) = TSInterfaceDeclaration"
| "node_type (TypeLiteral n) = TSTypeLiteral"

fun node_range :: "Node \<Rightarrow> Range" where
  "node_range (InterfaceDeclaration n) = i_range n"
| "node_range (TypeLiteral n) = l_range n"

fun node_parent :: "Node \<Rightarrow> AST_NODE_TYPES option" where
  "node_parent (InterfaceDeclaration n) = i_parent n"
| "node_parent (TypeLiteral n) = l_parent n"

text \<open>\<open>parent.id\<close>: a type literal has no such property.\<close>

fun node_id :: "Node \<Rightarrow> Identifier_node option" where
  "node_id (InterfaceDeclaration n) = Some (i_id n)"
| "node_id (TypeLiteral n) = None"

datatype error = TypeError

subsection \<open>Strings of the host language\<close>

text \<open>
  \<open>String.prototype.slice\<close>: a negative index counts from the end, both indices are
  clamped to the string, and an end before the start gives the empty string.
\<close>

definition slice :: "string \<Rightarrow> int \<Rightarrow> int \<Rightarrow> string" where
  "slice s b e =
     (let len = int (length s);
          from = (if b < 0 then max (len + b) 0 else min b len);
          to = (if e < 0 then max (len + e) 0 else min e len)
      in take (nat (to - from)) (drop (nat from) s))"

definition slice_from :: "string \<Rightarrow> int \<Rightarrow> string" where
  "slice_from s b = slice s b (int (length s))"

definition endsWith :: "string \<Rightarrow> string \<Rightarrow> bool" where
  "endsWith s suffix = (length suffix \<le> length s \<and> drop (length s - length suffix) s = suffix)"

text \<open>\<open>String.prototype.indexOf\<close>: the first position where the pattern occurs.\<close>

fun indexOf :: "string \<Rightarrow> string \<Rightarrow> nat option" where
  "indexOf [] pat = (if pat = [] then Some 0 else None)"
| "indexOf (c # cs) pat =
     (if take (length pat) (c # cs) = pat then Some 0
      else map_option Suc (indexOf cs pat))"

text \<open>
  The replacement text of \<open>String.prototype.replace\<close> is a template: \<open>$$\<close> stands for
  a dollar sign, \<open>$&\<close> for the matched text, \<open>$`\<close> for the text before the match and
  \<open>$'\<close> for the text after it. With a string pattern there are no capture groups, so
  every other use of the dollar sign stands for itself.
\<close>

fun getSubstitution :: "string \<Rightarrow> string \<Rightarrow> string \<Rightarrow> string \<Rightarrow> string" where
  "getSubstitution matched preceding following [] = []"
| "getSubstitution matched preceding following [c] = [c]"
| "getSubstitution matched preceding following (c # d # ds) =
     (if c = CHR ''$'' \<and> d = CHR ''$'' then CHR ''$'' # getSubstitution matched preceding following ds
      else if c = CHR ''$'' \<and> d = CHR ''&'' then matched @ getSubstitution matched preceding following ds
      else if c = CHR ''$'' \<and> d = CHR 0x60 then preceding @ getSubstitution matched preceding following ds
      else if c = CHR ''$'' \<and> d = CHR 0x27 then following @ getSubstitution matched preceding following ds
      else c # getSubstitution matched preceding following (d # ds))"

text \<open>
  \<open>String.prototype.replace\<close> with a string pattern: only the first occurrence is
  replaced, and a string without the pattern is returned as it is.
\<close>

definition replace :: "string \<Rightarrow> string \<Rightarrow> string \<Rightarrow> string" where
  "replace s pat replacement =
     (case indexOf s pat of
        None \<Rightarrow> s
      | Some pos \<Rightarrow>
          take pos s
          @ getSubstitution pat (take pos s) (drop (pos + length pat) s) replacement
          @ drop (pos + length pat) s)"

subsection \<open>The functions of the rule\<close>

definition possibleReturnThisTypeHolders :: "AST_NODE_TYPES set" where
  "possibleReturnThisTypeHolders =
     {TSTypeReference, TSThisType, TSFunctionType, TSTypeAnnotation}"

text \<open>
  \<open>getReturnType\<close> (lines 41 to 63): the range of the \<open>this\<close> type used as the
  annotation, or null. The argument may be \<open>undefined\<close> (\<open>None\<close>): reading its kind
  then throws, and so does reading the kind of the missing child of an annotation.
\<close>

fun getReturnType :: "TypeNode option \<Rightarrow> error + Range option" where
  "getReturnType None = Inl TypeError"
| "getReturnType (Some (TypeNode ty r ta rt)) =
     (if ty \<notin> possibleReturnThisTypeHolders then Inr None
      else if ty = TSThisType then Inr (Some r)
      else if ty = TSTypeAnnotation \<and> ta = None then Inl TypeError
      else if ty = TSTypeAnnotation \<and> ty_type (the ta) = TSThisType
        then Inr (Some (ty_range (the ta)))
      else if ty = TSFunctionType then getReturnType rt
      else Inr None)"

text \<open>
  \<open>hasOneSupertype\<close> (lines 69 to 81): whether the interface has a supertype other than
  a sole \<open>Function\<close>.
\<close>

definition hasOneSupertype :: "TSInterfaceDeclaration_node \<Rightarrow> bool" where
  "hasOneSupertype node =
     (case i_extends node of
        None \<Rightarrow> False
      | Some exts \<Rightarrow>
          if length exts = 0 then False
          else if length exts \<noteq> 1 then True
          else (let expr = h_expression (exts ! 0)
                in ex_type expr \<noteq> Identifier \<or> ex_name expr \<noteq> Some ''Function''))"

text \<open>\<open>shouldWrapSuggestion\<close> (lines 86 to 99), on the kind of \<open>parent.parent\<close>.\<close>

fun shouldWrapSuggestion :: "AST_NODE_TYPES option \<Rightarrow> bool" where
  "shouldWrapSuggestion None = False"
| "shouldWrapSuggestion (Some ty) =
     (case ty of
        TSUnionType \<Rightarrow> True
      | TSIntersectionType \<Rightarrow> True
      | TSArrayType \<Rightarrow> True
      | _ \<Rightarrow> False)"

text \<open>
  The test of the parameter loop:
  \<open>param.typeAnnotation?.typeAnnotation?.type === AST_NODE_TYPES.TSThisType\<close>.
\<close>

definition isThisParam :: "Parameter_node \<Rightarrow> bool" where
  "isThisParam param =
     (case p_typeAnnotation param of
        None \<Rightarrow> False
      | Some ann \<Rightarrow>
          (case ty_typeAnnotation ann of
             None \<Rightarrow> False
           | Some t \<Rightarrow> ty_type t = TSThisType))"

text \<open>
  The parameter loop (lines 128 to 138), run over the parameters in order: every
  parameter of type \<open>this\<close> calls \<open>lhs.replace('this', parent.id.name)\<close>, which throws
  when the parent has no \<open>id\<close>.
\<close>

fun forEachParam :: "Node \<Rightarrow> Parameter_node list \<Rightarrow> string \<Rightarrow> error + string" where
  "forEachParam parent [] lhs = Inr lhs"
| "forEachParam parent (param # ps) lhs =
     (if isThisParam param then
        (case node_id parent of
           None \<Rightarrow> Inl TypeError
         | Some ident \<Rightarrow> forEachParam parent ps (replace lhs ''this'' (id_name ident)))
      else forEachParam parent ps lhs)"

text \<open>
  The first part of \<open>renderSuggestion\<close> (lines 112 to 140), up to the assembled function
  type \<open>`${lhs} =>${rhs}`\<close>. The test \<open>returnType.length === 2\<close> holds of every range.
\<close>

definition assembleSuggestion :: "SourceCode \<Rightarrow> TypeElement \<Rightarrow> Node \<Rightarrow> error + string" where
  "assembleSuggestion sourceCode call parent =
     (case m_returnType call of
        None \<Rightarrow> Inl TypeError
      | Some callReturnType \<Rightarrow>
          (let start = fst (m_range call);
               colonPos = int (fst (ty_range callReturnType)) - int start;
               text = slice (getText sourceCode) (int start) (int (snd (m_range call)))
           in case getReturnType (ty_typeAnnotation callReturnType) of
                Inl e \<Rightarrow> Inl e
              | Inr returnType \<Rightarrow>
                  (let lhs = slice text 0 colonPos;
                       rhs = slice_from text (colonPos + 1)
                   in case
                        (case returnType of
                           None \<Rightarrow> Inr rhs
                         | Some r \<Rightarrow>
                             if slice (getText sourceCode) (int (fst r)) (int (snd r)) = ''this''
                             then (case node_id parent of
                                     None \<Rightarrow> Inl TypeError
                                   | Some ident \<Rightarrow> Inr (replace rhs ''this'' (id_name ident)))
                             else Inr rhs)
                      of
                        Inl e \<Rightarrow> Inl e
                      | Inr rhs' \<Rightarrow>
                          (case forEachParam parent (m_params call) lhs of
                             Inl e \<Rightarrow> Inl e
                           | Inr lhs' \<Rightarrow> Inr (lhs' @ '' =>'' @ rhs')))))"

text \<open>
  \<open>renderSuggestion\<close> (lines 106 to 156): the assembled function type, in parentheses
  below a union, an intersection or an array type, as a type alias for an interface, and
  without a last semicolon otherwise.
\<close>

definition renderSuggestion :: "SourceCode \<Rightarrow> TypeElement \<Rightarrow> Node \<Rightarrow> error + string" where
  "renderSuggestion sourceCode call parent =
     (case assembleSuggestion sourceCode call parent of
        Inl e \<Rightarrow> Inl e
      | Inr assembled \<Rightarrow>
          (let suggestion =
                 (if shouldWrapSuggestion (node_parent parent)
                  then ''('' @ assembled @ '')'' else assembled)
           in case parent of
                InterfaceDeclaration n \<Rightarrow>
                  (case i_typeParameters n of
                     Some tp \<Rightarrow>
                       Inr (''type ''
                            @ slice (getText sourceCode) (int (fst (id_range (i_id n)))) (int (snd tp))
                            @ '' = '' @ suggestion)
                   | None \<Rightarrow> Inr (''type '' @ id_name (i_id n) @ '' = '' @ suggestion))
              | TypeLiteral n \<Rightarrow>
                  Inr (if endsWith suggestion '';'' then slice suggestion 0 (- 1)
                       else suggestion)))"

text \<open>What the rule hands to \<open>context.report\<close>, with the fix it offers.\<close>

record Fix =
  fix_range :: Range
  fix_text :: string

record ReportDescriptor =
  r_node :: TypeElement
  r_messageId :: string
  r_type :: string
  r_sigSuggestion :: string
  r_fix :: Fix

text \<open>
  \<open>checkMember\<close> (lines 162 to 201): the report made for the member, if any. The start
  of the fix is read from the first \<open>interface\<close> keyword among the tokens of the node;
  with no such token the read throws.
\<close>

definition checkMember :: "SourceCode \<Rightarrow> TypeElement \<Rightarrow> Node \<Rightarrow> error + ReportDescriptor option" where
  "checkMember sourceCode member node =
     (if (m_type member = TSCallSignatureDeclaration
          \<or> m_type member = TSConstructSignatureDeclaration)
         \<and> m_returnType member \<noteq> None
      then
        (case renderSuggestion sourceCode member node of
           Inl e \<Rightarrow> Inl e
         | Inr suggestion \<Rightarrow>
             (case (if node_type node = TSTypeLiteral then Inr (fst (node_range node))
                    else (case filter (\<lambda>token. tok_type token = KeywordToken
                                          \<and> tok_value token = ''interface'')
                                 (getTokens sourceCode (node_range node)) of
                            [] \<Rightarrow> Inl TypeError
                          | token # _ \<Rightarrow> Inr (fst (tok_range token))))
              of
                Inl e \<Rightarrow> Inl e
              | Inr fixStart \<Rightarrow>
                  Inr (Some \<lparr> r_node = member,
                              r_messageId = ''functionTypeOverCallableType'',
                              r_type = (if node_type node = TSTypeLiteral
                                        then ''Type literal'' else ''Interface''),
                              r_sigSuggestion = suggestion,
                              r_fix = \<lparr> fix_range = (fixStart, snd (node_range node)),
                                        fix_text = suggestion \<rparr> \<rparr>)))
      else Inr None)"

text \<open>
  The two listeners of the rule (lines 204 to 211). The selector of the second one
  admits only type literals with exactly one member.
\<close>

definition TSInterfaceDeclaration_listener ::
  "SourceCode \<Rightarrow> TSInterfaceDeclaration_node \<Rightarrow> error + ReportDescriptor option" where
  "TSInterfaceDeclaration_listener sourceCode node =
     (if \<not> hasOneSupertype node \<and> length (i_body node) = 1
      then checkMember sourceCode (i_body node ! 0) (InterfaceDeclaration node)
      else Inr None)"

definition TSTypeLiteral_listener ::
  "SourceCode \<Rightarrow> TSTypeLiteral_node \<Rightarrow> error + ReportDescriptor option" where
  "TSTypeLiteral_listener sourceCode node =
     (if length (l_members node) = 1
      then checkMember sourceCode (l_members node ! 0) (TypeLiteral node)
      else Inr None)"

subsection \<open>Well-formed trees\<close>

text \<open>
  What a parser guarantees and \<open>getReturnType\<close> relies on: a \<open>TSTypeAnnotation\<close> node has
  its child, and a \<open>TSFunctionType\<close> node has a return type, itself well formed.
\<close>

fun wellFormedType :: "TypeNode \<Rightarrow> bool" where
  "wellFormedType (TypeNode ty r ta rt) =
     ((ty = TSTypeAnnotation \<longrightarrow> ta \<noteq> None)
      \<and> (ty = TSFunctionType \<longrightarrow> (case rt of None \<Rightarrow> False | Some t \<Rightarrow> wellFormedType t)))"

text \<open>A written return type of a member is an annotation with a well-formed child.\<close>

definition wellFormedMember :: "TypeElement \<Rightarrow> bool" where
  "wellFormedMember member =
     (case m_returnType member of
        None \<Rightarrow> True
      | Some ann \<Rightarrow>
          (case ty_typeAnnotation ann of None \<Rightarrow> False | Some t \<Rightarrow> wellFormedType t))"

definition isInterfaceKeyword :: "Token \<Rightarrow> bool" where
  "isInterfaceKeyword token =
     (tok_type token = KeywordToken \<and> tok_value token = ''interface'')"

text \<open>The tokens of a file stand in the order of the text.\<close>

definition tokensInOrder :: "SourceCode \<Rightarrow> bool" where
  "tokensInOrder sourceCode =
     sorted_wrt (\<lambda>s t. fst (tok_range s) \<le> fst (tok_range t)) (sc_tokens sourceCode)"

text \<open>
  The member the rule is after: a call signature or a construct signature with a written
  return type.
\<close>

definition isCallableWithReturnType :: "TypeElement \<Rightarrow> bool" where
  "isCallableWithReturnType member =
     ((m_type member = TSCallSignatureDeclaration
       \<or> m_type member = TSConstructSignatureDeclaration)
      \<and> m_returnType member \<noteq> None)"

text \<open>The parents below which \<open>renderSuggestion\<close> is to add parentheses.\<close>

definition wrappingParents :: "AST_NODE_TYPES option set" where
  "wrappingParents = {Some TSUnionType, Some TSIntersectionType, Some TSArrayType}"

text \<open>
  The head of the type alias that replaces an interface: the name, or the source text
  from the name to the end of the type parameters.
\<close>

definition typeAliasHead :: "SourceCode \<Rightarrow> TSInterfaceDeclaration_node \<Rightarrow> string" where
  "typeAliasHead sourceCode n =
     ''type ''
     @ (case i_typeParameters n of
          Some tp \<Rightarrow> slice (getText sourceCode) (int (fst (id_range (i_id n)))) (int (snd tp))
        | None \<Rightarrow> id_name (i_id n))
     @ '' = ''"

text \<open>
  The local constants of \<open>renderSuggestion\<close>: the text of the signature, the offset of
  the colon of its return type, and the texts before and after that colon.
\<close>

definition signatureText :: "SourceCode \<Rightarrow> TypeElement \<Rightarrow> string" where
  "signatureText sourceCode call =
     slice (getText sourceCode) (int (fst (m_range call))) (int (snd (m_range call)))"

definition colonPos :: "TypeElement \<Rightarrow> TypeNode \<Rightarrow> int" where
  "colonPos call ann = int (fst (ty_range ann)) - int (fst (m_range call))"

definition lhsText :: "SourceCode \<Rightarrow> TypeElement \<Rightarrow> TypeNode \<Rightarrow> string" where
  "lhsText sourceCode call ann = slice (signatureText sourceCode call) 0 (colonPos call ann)"

definition rhsText :: "SourceCode \<Rightarrow> TypeElement \<Rightarrow> TypeNode \<Rightarrow> string" where
  "rhsText sourceCode call ann =
     slice_from (signatureText sourceCode call) (colonPos call ann + 1)"

subsection \<open>Example files\<close>

text \<open>Shorthands for the nodes and tokens of the examples.\<close>

definition tok :: "AST_TOKEN_TYPES \<Rightarrow> string \<Rightarrow> nat \<Rightarrow> nat \<Rightarrow> Token" where
  "tok ty v s e = \<lparr> tok_type = ty, tok_value = v, tok_range = (s, e) \<rparr>"

definition leafType :: "AST_NODE_TYPES \<Rightarrow> nat \<Rightarrow> nat \<Rightarrow> TypeNode" where
  "leafType ty s e = TypeNode ty (s, e) None None"

definition annotation :: "nat \<Rightarrow> TypeNode \<Rightarrow> TypeNode" where
  "annotation s t = TypeNode TSTypeAnnotation (s, snd (ty_range t)) (Some t) None"

definition functionType :: "nat \<Rightarrow> TypeNode \<Rightarrow> TypeNode" where
  "functionType s rt = TypeNode TSFunctionType (s, snd (ty_range rt)) None (Some rt)"

definition parameter :: "TypeNode \<Rightarrow> Parameter_node" where
  "parameter ann = \<lparr> p_type = Identifier, p_typeAnnotation = Some ann \<rparr>"

definition callSignature :: "nat \<Rightarrow> Parameter_node list \<Rightarrow> TypeNode \<Rightarrow> TypeElement" where
  "callSignature s ps ann =
     \<lparr> m_type = TSCallSignatureDeclaration, m_range = (s, snd (ty_range ann)),
       m_params = ps, m_returnType = Some ann \<rparr>"

definition heritage :: "string \<Rightarrow> TSInterfaceHeritage_node" where
  "heritage name = \<lparr> h_expression = \<lparr> ex_type = Identifier, ex_name = Some name \<rparr> \<rparr>"

definition report :: "TypeElement \<Rightarrow> string \<Rightarrow> string \<Rightarrow> nat \<Rightarrow> nat \<Rightarrow> ReportDescriptor" where
  "report member kind suggestion s e =
     \<lparr> r_node = member, r_messageId = ''functionTypeOverCallableType'', r_type = kind,
       r_sigSuggestion = suggestion,
       r_fix = \<lparr> fix_range = (s, e), fix_text = suggestion \<rparr> \<rparr>"

text \<open>An interface with no extends clause.\<close>

definition src_void :: SourceCode where
  "src_void =
     \<lparr> sc_text = ''interface Foo { (): void }'',
       sc_tokens =
       [tok KeywordToken ''interface'' 0 9, tok IdentifierToken ''Foo'' 10 13,
        tok PunctuatorToken ''{'' 14 15, tok PunctuatorToken ''('' 16 17,
        tok PunctuatorToken '')'' 17 18, tok PunctuatorToken '':'' 18 19,
        tok KeywordToken ''void'' 20 24, tok PunctuatorToken ''}'' 25 26] \<rparr>"

definition call_void :: TypeElement where
  "call_void =
     callSignature 16 [] (annotation 18 (leafType TSVoidKeyword 20 24))"

definition interface_void :: TSInterfaceDeclaration_node where
  "interface_void =
     \<lparr> i_range = (0, 26), i_parent = Some Program,
       i_id = \<lparr> id_name = ''Foo'', id_range = (10, 13) \<rparr>,
       i_typeParameters = None, i_extends = None, i_body = [call_void] \<rparr>"

text \<open>An interface that extends \<open>Function\<close> only.\<close>

definition src_extends_Function :: SourceCode where
  "src_extends_Function =
     \<lparr> sc_text = ''interface Foo extends Function { (): void }'',
       sc_tokens =
       [tok KeywordToken ''interface'' 0 9, tok IdentifierToken ''Foo'' 10 13,
        tok KeywordToken ''extends'' 14 21, tok IdentifierToken ''Function'' 22 30,
        tok PunctuatorToken ''{'' 31 32, tok PunctuatorToken ''('' 33 34,
        tok PunctuatorToken '')'' 34 35, tok PunctuatorToken '':'' 35 36,
        tok KeywordToken ''void'' 37 41, tok PunctuatorToken ''}'' 42 43] \<rparr>"

definition call_extends_Function :: TypeElement where
  "call_extends_Function =
     callSignature 33 [] (annotation 35 (leafType TSVoidKeyword 37 41))"

definition interface_extends_Function :: TSInterfaceDeclaration_node where
  "interface_extends_Function =
     \<lparr> i_range = (0, 43), i_parent = Some Program,
       i_id = \<lparr> id_name = ''Foo'', id_range = (10, 13) \<rparr>,
       i_typeParameters = None, i_extends = Some [heritage ''Function''], i_body = [call_extends_Function] \<rparr>"

text \<open>An interface that extends another interface.\<close>

definition src_extends_Bar :: SourceCode where
  "src_extends_Bar =
     \<lparr> sc_text = ''interface Foo extends Bar { (): void }'',
       sc_tokens =
       [tok KeywordToken ''interface'' 0 9, tok IdentifierToken ''Foo'' 10 13,
        tok KeywordToken ''extends'' 14 21, tok IdentifierToken ''Bar'' 22 25,
        tok PunctuatorToken ''{'' 26 27, tok PunctuatorToken ''('' 28 29,
        tok PunctuatorToken '')'' 29 30, tok PunctuatorToken '':'' 30 31,
        tok KeywordToken ''void'' 32 36, tok PunctuatorToken ''}'' 37 38] \<rparr>"

definition call_extends_Bar :: TypeElement where
  "call_extends_Bar =
     callSignature 28 [] (annotation 30 (leafType TSVoidKeyword 32 36))"

definition interface_extends_Bar :: TSInterfaceDeclaration_node where
  "interface_extends_Bar =
     \<lparr> i_range = (0, 38), i_parent = Some Program,
       i_id = \<lparr> id_name = ''Foo'', id_range = (10, 13) \<rparr>,
       i_typeParameters = None, i_extends = Some [heritage ''Bar''], i_body = [call_extends_Bar] \<rparr>"

text \<open>A type literal whose call signature returns \<open>this\<close>.\<close>

definition src_literal_this :: SourceCode where
  "src_literal_this =
     \<lparr> sc_text = ''type T = { (): this }'',
       sc_tokens =
       [tok IdentifierToken ''type'' 0 4, tok IdentifierToken ''T'' 5 6,
        tok PunctuatorToken ''='' 7 8, tok PunctuatorToken ''{'' 9 10,
        tok PunctuatorToken ''('' 11 12, tok PunctuatorToken '')'' 12 13,
        tok PunctuatorToken '':'' 13 14, tok KeywordToken ''this'' 15 19,
        tok PunctuatorToken ''}'' 20 21] \<rparr>"

definition call_literal_this :: TypeElement where
  "call_literal_this =
     callSignature 11 [] (annotation 13 (leafType TSThisType 15 19))"

definition literal_this :: TSTypeLiteral_node where
  "literal_this =
     \<lparr> l_range = (9, 21), l_parent = Some TSTypeAliasDeclaration, l_members = [call_literal_this] \<rparr>"

text \<open>A type literal whose call signature takes a parameter of type \<open>this\<close>.\<close>

definition src_literal_param_this :: SourceCode where
  "src_literal_param_this =
     \<lparr> sc_text = ''type T = { (x: this): void }'',
       sc_tokens =
       [tok IdentifierToken ''type'' 0 4, tok IdentifierToken ''T'' 5 6,
        tok PunctuatorToken ''='' 7 8, tok PunctuatorToken ''{'' 9 10,
        tok PunctuatorToken ''('' 11 12, tok IdentifierToken ''x'' 12 13,
        tok PunctuatorToken '':'' 13 14, tok KeywordToken ''this'' 15 19,
        tok PunctuatorToken '')'' 19 20, tok PunctuatorToken '':'' 20 21,
        tok KeywordToken ''void'' 22 26, tok PunctuatorToken ''}'' 27 28] \<rparr>"

definition call_literal_param_this :: TypeElement where
  "call_literal_param_this =
     callSignature 11 [parameter (annotation 13 (leafType TSThisType 15 19))]
       (annotation 20 (leafType TSVoidKeyword 22 26))"

definition literal_param_this :: TSTypeLiteral_node where
  "literal_param_this =
     \<lparr> l_range = (9, 28), l_parent = Some TSTypeAliasDeclaration, l_members = [call_literal_param_this] \<rparr>"

text \<open>An interface whose call signature returns \<open>this\<close>.\<close>

definition src_this :: SourceCode where
  "src_this =
     \<lparr> sc_text = ''interface Foo { (): this }'',
       sc_tokens =
       [tok KeywordToken ''interface'' 0 9, tok IdentifierToken ''Foo'' 10 13,
        tok PunctuatorToken ''{'' 14 15, tok PunctuatorToken ''('' 16 17,
        tok PunctuatorToken '')'' 17 18, tok PunctuatorToken '':'' 18 19,
        tok KeywordToken ''this'' 20 24, tok PunctuatorToken ''}'' 25 26] \<rparr>"

definition call_this :: TypeElement where
  "call_this =
     callSignature 16 [] (annotation 18 (leafType TSThisType 20 24))"

definition interface_this :: TSInterfaceDeclaration_node where
  "interface_this =
     \<lparr> i_range = (0, 26), i_parent = Some Program,
       i_id = \<lparr> id_name = ''Foo'', id_range = (10, 13) \<rparr>,
       i_typeParameters = None, i_extends = None, i_body = [call_this] \<rparr>"

text \<open>A returned function type with a \<open>this\<close> parameter before its \<open>this\<close> return type.\<close>

definition src_this_parameter :: SourceCode where
  "src_this_parameter =
     \<lparr> sc_text = ''interface Foo { (): (this: Foo) => this }'',
       sc_tokens =
       [tok KeywordToken ''interface'' 0 9, tok IdentifierToken ''Foo'' 10 13,
        tok PunctuatorToken ''{'' 14 15, tok PunctuatorToken ''('' 16 17,
        tok PunctuatorToken '')'' 17 18, tok PunctuatorToken '':'' 18 19,
        tok PunctuatorToken ''('' 20 21, tok KeywordToken ''this'' 21 25,
        tok PunctuatorToken '':'' 25 26, tok IdentifierToken ''Foo'' 27 30,
        tok PunctuatorToken '')'' 30 31, tok PunctuatorToken ''=>'' 32 34,
        tok KeywordToken ''this'' 35 39, tok PunctuatorToken ''}'' 40 41] \<rparr>"

definition returnType_this_parameter :: TypeNode where
  "returnType_this_parameter =
     annotation 18 (functionType 20 (annotation 32 (leafType TSThisType 35 39)))"

definition call_this_parameter :: TypeElement where
  "call_this_parameter = callSignature 16 [] returnType_this_parameter"

definition interface_this_parameter :: TSInterfaceDeclaration_node where
  "interface_this_parameter =
     \<lparr> i_range = (0, 41), i_parent = Some Program,
       i_id = \<lparr> id_name = ''Foo'', id_range = (10, 13) \<rparr>,
       i_typeParameters = None, i_extends = None, i_body = [call_this_parameter] \<rparr>"





text \<open>A \<open>this\<close> type two function types deep.\<close>

definition src_nested :: SourceCode where
  "src_nested =
     \<lparr> sc_text = ''interface Foo { (): () => () => this }'',
       sc_tokens =
       [tok KeywordToken ''interface'' 0 9, tok IdentifierToken ''Foo'' 10 13,
        tok PunctuatorToken ''{'' 14 15, tok PunctuatorToken ''('' 16 17,
        tok PunctuatorToken '')'' 17 18, tok PunctuatorToken '':'' 18 19,
        tok PunctuatorToken ''('' 20 21, tok PunctuatorToken '')'' 21 22,
        tok PunctuatorToken ''=>'' 23 25, tok PunctuatorToken ''('' 26 27,
        tok PunctuatorToken '')'' 27 28, tok PunctuatorToken ''=>'' 29 31,
        tok KeywordToken ''this'' 32 36, tok PunctuatorToken ''}'' 37 38] \<rparr>"

definition call_nested :: TypeElement where
  "call_nested =
     callSignature 16 []
       (annotation 18
          (functionType 20
             (annotation 23 (functionType 26 (annotation 29 (leafType TSThisType 32 36))))))"

definition interface_nested :: TSInterfaceDeclaration_node where
  "interface_nested =
     \<lparr> i_range = (0, 38), i_parent = Some Program,
       i_id = \<lparr> id_name = ''Foo'', id_range = (10, 13) \<rparr>,
       i_typeParameters = None, i_extends = None, i_body = [call_nested] \<rparr>"

text \<open>A parameter of type \<open>this\<close>.\<close>

definition src_param_this :: SourceCode where
  "src_param_this =
     \<lparr> sc_text = ''interface Foo { (x: this): void }'',
       sc_tokens =
       [tok KeywordToken ''interface'' 0 9, tok IdentifierToken ''Foo'' 10 13,
        tok PunctuatorToken ''{'' 14 15, tok PunctuatorToken ''('' 16 17,
        tok IdentifierToken ''x'' 17 18, tok PunctuatorToken '':'' 18 19,
        tok KeywordToken ''this'' 20 24, tok PunctuatorToken '')'' 24 25,
        tok PunctuatorToken '':'' 25 26, tok KeywordToken ''void'' 27 31,
        tok PunctuatorToken ''}'' 32 33] \<rparr>"

definition call_param_this :: TypeElement where
  "call_param_this =
     callSignature 16 [parameter (annotation 18 (leafType TSThisType 20 24))]
       (annotation 25 (leafType TSVoidKeyword 27 31))"

definition interface_param_this :: TSInterfaceDeclaration_node where
  "interface_param_this =
     \<lparr> i_range = (0, 33), i_parent = Some Program,
       i_id = \<lparr> id_name = ''Foo'', id_range = (10, 13) \<rparr>,
       i_typeParameters = None, i_extends = None, i_body = [call_param_this] \<rparr>"

text \<open>The same, in an interface named \<open>$$\<close>.\<close>

definition src_dollar :: SourceCode where
  "src_dollar =
     \<lparr> sc_text = ''interface $$ { (x: this): void }'',
       sc_tokens =
       [tok KeywordToken ''interface'' 0 9, tok IdentifierToken ''$$'' 10 12,
        tok PunctuatorToken ''{'' 13 14, tok PunctuatorToken ''('' 15 16,
        tok IdentifierToken ''x'' 16 17, tok PunctuatorToken '':'' 17 18,
        tok KeywordToken ''this'' 19 23, tok PunctuatorToken '')'' 23 24,
        tok PunctuatorToken '':'' 24 25, tok KeywordToken ''void'' 26 30,
        tok PunctuatorToken ''}'' 31 32] \<rparr>"

definition call_dollar :: TypeElement where
  "call_dollar =
     callSignature 15 [parameter (annotation 17 (leafType TSThisType 19 23))]
       (annotation 24 (leafType TSVoidKeyword 26 30))"

definition interface_dollar :: TSInterfaceDeclaration_node where
  "interface_dollar =
     \<lparr> i_range = (0, 32), i_parent = Some Program,
       i_id = \<lparr> id_name = ''$$'', id_range = (10, 12) \<rparr>,
       i_typeParameters = None, i_extends = None, i_body = [call_dollar] \<rparr>"

text \<open>A generic interface.\<close>

definition src_generic :: SourceCode where
  "src_generic =
     \<lparr> sc_text = ''interface Foo<T> { (x: T): T }'',
       sc_tokens =
       [tok KeywordToken ''interface'' 0 9, tok IdentifierToken ''Foo'' 10 13,
        tok PunctuatorToken ''<'' 13 14, tok IdentifierToken ''T'' 14 15,
        tok PunctuatorToken ''>'' 15 16, tok PunctuatorToken ''{'' 17 18,
        tok PunctuatorToken ''('' 19 20, tok IdentifierToken ''x'' 20 21,
        tok PunctuatorToken '':'' 21 22, tok IdentifierToken ''T'' 23 24,
        tok PunctuatorToken '')'' 24 25, tok PunctuatorToken '':'' 25 26,
        tok IdentifierToken ''T'' 27 28, tok PunctuatorToken ''}'' 29 30] \<rparr>"

definition call_generic :: TypeElement where
  "call_generic =
     callSignature 19 [parameter (annotation 21 (leafType TSTypeReference 23 24))]
       (annotation 25 (leafType TSTypeReference 27 28))"

definition interface_generic :: TSInterfaceDeclaration_node where
  "interface_generic =
     \<lparr> i_range = (0, 30), i_parent = Some Program,
       i_id = \<lparr> id_name = ''Foo'', id_range = (10, 13) \<rparr>,
       i_typeParameters = Some (13, 16), i_extends = None, i_body = [call_generic] \<rparr>"

text \<open>A type literal in a union, and the same literal alone.\<close>

definition src_union :: SourceCode where
  "src_union =
     \<lparr> sc_text = ''type T = { (): void } | string'',
       sc_tokens =
       [tok IdentifierToken ''type'' 0 4, tok IdentifierToken ''T'' 5 6,
        tok PunctuatorToken ''='' 7 8, tok PunctuatorToken ''{'' 9 10,
        tok PunctuatorToken ''('' 11 12, tok PunctuatorToken '')'' 12 13,
        tok PunctuatorToken '':'' 13 14, tok KeywordToken ''void'' 15 19,
        tok PunctuatorToken ''}'' 20 21, tok PunctuatorToken ''|'' 22 23,
        tok IdentifierToken ''string'' 24 30] \<rparr>"

definition call_literal_void :: TypeElement where
  "call_literal_void =
     callSignature 11 [] (annotation 13 (leafType TSVoidKeyword 15 19))"

definition literal_union :: TSTypeLiteral_node where
  "literal_union =
     \<lparr> l_range = (9, 21), l_parent = Some TSUnionType, l_members = [call_literal_void] \<rparr>"

definition src_bare :: SourceCode where
  "src_bare =
     \<lparr> sc_text = ''type T = { (): void }'',
       sc_tokens =
       [tok IdentifierToken ''type'' 0 4, tok IdentifierToken ''T'' 5 6,
        tok PunctuatorToken ''='' 7 8, tok PunctuatorToken ''{'' 9 10,
        tok PunctuatorToken ''('' 11 12, tok PunctuatorToken '')'' 12 13,
        tok PunctuatorToken '':'' 13 14, tok KeywordToken ''void'' 15 19,
        tok PunctuatorToken ''}'' 20 21] \<rparr>"

definition literal_bare :: TSTypeLiteral_node where
  "literal_bare =
     \<lparr> l_range = (9, 21), l_parent = Some TSTypeAliasDeclaration, l_members = [call_literal_void] \<rparr>"

text \<open>An interface declaration that starts with a modifier.\<close>

definition src_declare :: SourceCode where
  "src_declare =
     \<lparr> sc_text = ''declare interface Foo { (): void }'',
       sc_tokens =
       [tok IdentifierToken ''declare'' 0 7, tok KeywordToken ''interface'' 8 17,
        tok IdentifierToken ''Foo'' 18 21, tok PunctuatorToken ''{'' 22 23,
        tok PunctuatorToken ''('' 24 25, tok PunctuatorToken '')'' 25 26,
        tok PunctuatorToken '':'' 26 27, tok KeywordToken ''void'' 28 32,
        tok PunctuatorToken ''}'' 33 34] \<rparr>"

definition call_declare :: TypeElement where
  "call_declare =
     callSignature 24 [] (annotation 26 (leafType TSVoidKeyword 28 32))"

definition interface_declare :: TSInterfaceDeclaration_node where
  "interface_declare =
     \<lparr> i_range = (0, 34), i_parent = Some Program,
       i_id = \<lparr> id_name = ''Foo'', id_range = (18, 21) \<rparr>,
       i_typeParameters = None, i_extends = None, i_body = [call_declare] \<rparr>"

section \<open>Properties\<close>

subsection \<open>Strings\<close>


lemma getSubstitution_without_dollar:
  "CHR ''$'' \<notin> set replacement \<Longrightarrow>
     getSubstitution matched preceding following replacement = replacement"
  by (induction matched preceding following replacement rule: getSubstitution.induct) auto

lemma replace_without_dollar:
  assumes "CHR ''$'' \<notin> set replacement"
  shows "replace s pat replacement =
         (case indexOf s pat of
            None \<Rightarrow> s
          | Some pos \<Rightarrow> take pos s @ replacement @ drop (pos + length pat) s)"
  using assms by (simp add: replace_def getSubstitution_without_dollar split: option.splits)

lemma endsWith_parenthesized: "\<not> endsWith (CHR ''('' # a @ '')'') '';''"
  by (simp add: endsWith_def)

subsection \<open>The resolution of the returned \<open>this\<close>\<close>

lemma getReturnType_total: "wellFormedType t \<Longrightarrow> \<exists>r. getReturnType (Some t) = Inr r"
proof (induction t)
  case (TypeNode ty r ta rt)
  show ?case
  proof (cases "ty = TSFunctionType")
    case True
    with TypeNode.prems obtain t' where rt: "rt = Some t'" and wf: "wellFormedType t'"
      by (auto split: option.splits)
    from TypeNode.IH(2)[of t'] rt wf obtain r' where "getReturnType (Some t') = Inr r'"
      by auto
    with True rt show ?thesis
      by (simp add: possibleReturnThisTypeHolders_def)
  next
    case False
    with TypeNode.prems show ?thesis by auto
  qed
qed

text \<open>
  The three shapes that resolve: a \<open>this\<close> type, an annotation of a \<open>this\<close> type, and a
  function type whose return type annotation is a \<open>this\<close> type.
\<close>

lemma getReturnType_this:
  "getReturnType (Some (TypeNode TSThisType r ta rt)) = Inr (Some r)"
  by (simp add: possibleReturnThisTypeHolders_def)

lemma getReturnType_annotated_this:
  "getReturnType (Some (TypeNode TSTypeAnnotation r (Some (TypeNode TSThisType r' ta' rt')) rt))
   = Inr (Some r')"
  by (simp add: possibleReturnThisTypeHolders_def)

lemma getReturnType_function_this:
  "getReturnType
     (Some (TypeNode TSFunctionType r ta
        (Some (TypeNode TSTypeAnnotation r1 (Some (TypeNode TSThisType r' ta' rt')) rt1))))
   = Inr (Some r')"
  by (simp add: possibleReturnThisTypeHolders_def)

text \<open>A function type that returns a function type resolves to nothing.\<close>

lemma getReturnType_function_function:
  "getReturnType
     (Some (TypeNode TSFunctionType r ta
        (Some (TypeNode TSTypeAnnotation r1 (Some (TypeNode TSFunctionType r2 ta2 rt2)) rt1))))
   = Inr None"
  by (simp add: possibleReturnThisTypeHolders_def)

subsection \<open>The suggestion for an interface\<close>

lemma shouldWrapSuggestion_iff: "shouldWrapSuggestion p \<longleftrightarrow> p \<in> wrappingParents"
proof (cases p)
  case None
  then show ?thesis by (simp add: wrappingParents_def)
next
  case (Some ty)
  then show ?thesis by (cases ty) (simp_all add: wrappingParents_def)
qed

text \<open>
  In an interface every parameter of type \<open>this\<close> causes one call of
  \<open>String.prototype.replace\<close> on the text before the colon.
\<close>

lemma forEachParam_interface_funpow:
  "forEachParam (InterfaceDeclaration n) ps lhs =
     Inr (((\<lambda>l. replace l ''this'' (id_name (i_id n))) ^^ length (filter isThisParam ps)) lhs)"
proof (induction ps arbitrary: lhs)
  case Nil
  show ?case by simp
next
  case (Cons p ps)
  show ?case
  proof (cases "isThisParam p")
    case True
    then show ?thesis
      by (simp add: Cons.IH funpow_swap1[of "\<lambda>l. replace l ''this'' (id_name (i_id n))"])
  next
    case False
    then show ?thesis by (simp add: Cons.IH)
  qed
qed

lemma assembleSuggestion_interface:
  assumes "m_returnType call = Some ann"
    and "getReturnType (ty_typeAnnotation ann) = Inr res"
  shows "assembleSuggestion sc call (InterfaceDeclaration n) =
         Inr (((\<lambda>l. replace l ''this'' (id_name (i_id n)))
                 ^^ length (filter isThisParam (m_params call))) (lhsText sc call ann)
              @ '' =>''
              @ (case res of
                   None \<Rightarrow> rhsText sc call ann
                 | Some r \<Rightarrow>
                     if slice (getText sc) (int (fst r)) (int (snd r)) = ''this''
                     then replace (rhsText sc call ann) ''this'' (id_name (i_id n))
                     else rhsText sc call ann))"
  using assms
  by (cases res)
     (simp_all add: assembleSuggestion_def Let_def forEachParam_interface_funpow lhsText_def
        rhsText_def signatureText_def colonPos_def)

lemma assembleSuggestion_interface_total:
  assumes "m_returnType member = Some ann" and "wellFormedMember member"
  shows "\<exists>a. assembleSuggestion sc member (InterfaceDeclaration n) = Inr a"
proof -
  from assms obtain t where t: "ty_typeAnnotation ann = Some t" and wf: "wellFormedType t"
    by (auto simp: wellFormedMember_def split: option.splits)
  from getReturnType_total[OF wf] t obtain res
    where "getReturnType (ty_typeAnnotation ann) = Inr res" by auto
  from assembleSuggestion_interface[OF assms(1) this] show ?thesis by blast
qed

text \<open>On an interface with a well-formed member \<open>renderSuggestion\<close> does not throw.\<close>

lemma renderSuggestion_interface_total:
  assumes "m_returnType member = Some ann" and "wellFormedMember member"
  shows "\<exists>s. renderSuggestion sc member (InterfaceDeclaration n) = Inr s"
proof -
  from assembleSuggestion_interface_total[OF assms]
  obtain a where "assembleSuggestion sc member (InterfaceDeclaration n) = Inr a" by blast
  then show ?thesis
    by (simp add: renderSuggestion_def Let_def split: option.splits)
qed

subsection \<open>The report\<close>

lemma isInterfaceKeyword_eq:
  "(\<lambda>token. tok_type token = KeywordToken \<and> tok_value token = ''interface'')
   = isInterfaceKeyword"
  by (auto simp: isInterfaceKeyword_def)

lemma checkMember_not_callable:
  "\<not> isCallableWithReturnType member \<Longrightarrow> checkMember sc member node = Inr None"
  unfolding checkMember_def isCallableWithReturnType_def by (simp only: if_False)

lemma checkMember_report_callable:
  "checkMember sc member node = Inr (Some r) \<Longrightarrow> isCallableWithReturnType member"
  using checkMember_not_callable[of member sc node] by auto

lemma checkMember_report:
  assumes "checkMember sc member node = Inr (Some r)"
  shows "\<exists>s. renderSuggestion sc member node = Inr s \<and> r_sigSuggestion r = s
           \<and> fix_text (r_fix r) = s \<and> snd (fix_range (r_fix r)) = snd (node_range node)
           \<and> r_node r = member
           \<and> (case node of
                 TypeLiteral l \<Rightarrow> fst (fix_range (r_fix r)) = fst (l_range l)
               | InterfaceDeclaration n \<Rightarrow>
                   (\<exists>t ts. filter isInterfaceKeyword (getTokens sc (i_range n)) = t # ts
                      \<and> fst (fix_range (r_fix r)) = fst (tok_range t)))"
proof (cases node)
  case (InterfaceDeclaration n)
  with assms show ?thesis
    by (auto simp: checkMember_def isInterfaceKeyword_eq
          split: if_splits sum.splits list.splits)
next
  case (TypeLiteral l)
  with assms show ?thesis
    by (auto simp: checkMember_def split: if_splits sum.splits)
qed

lemma checkMember_interface_reports:
  assumes c: "isCallableWithReturnType member"
    and wf: "wellFormedMember member"
    and kw: "\<exists>t \<in> set (getTokens sc (i_range n)). isInterfaceKeyword t"
  shows "\<exists>r. checkMember sc member (InterfaceDeclaration n) = Inr (Some r)"
proof -
  from c obtain ann where ann: "m_returnType member = Some ann"
    by (auto simp: isCallableWithReturnType_def)
  from renderSuggestion_interface_total[OF ann wf]
  obtain s where s: "renderSuggestion sc member (InterfaceDeclaration n) = Inr s" by blast
  from kw have "filter isInterfaceKeyword (getTokens sc (i_range n)) \<noteq> []"
    by (auto simp: filter_empty_conv)
  then obtain t ts where f: "filter isInterfaceKeyword (getTokens sc (i_range n)) = t # ts"
    by (cases "filter isInterfaceKeyword (getTokens sc (i_range n))") auto
  from c s f show ?thesis
    by (simp add: checkMember_def isCallableWithReturnType_def isInterfaceKeyword_eq)
qed

lemma first_of_filter_sorted:
  assumes "sorted_wrt (\<lambda>s t. f s \<le> (f t :: nat)) xs"
    and "filter P xs = t # ts" and "x \<in> set xs" and "P x"
  shows "f t \<le> f x"
proof -
  from assms(1) have "sorted_wrt (\<lambda>s t. f s \<le> f t) (filter P xs)"
    by (rule sorted_wrt_filter)
  with assms(2) have "\<forall>y \<in> set ts. f t \<le> f y" by simp
  moreover from assms(3,4) have "x \<in> set (filter P xs)" by simp
  with assms(2) have "x = t \<or> x \<in> set ts" by simp
  ultimately show ?thesis by auto
qed

lemma literal_report_callable:
  assumes "TSTypeLiteral_listener sc l = Inr (Some r)"
  shows "\<exists>m. l_members l = [m] \<and> isCallableWithReturnType m"
proof -
  from assms have len: "length (l_members l) = 1"
    and cm: "checkMember sc (l_members l ! 0) (TypeLiteral l) = Inr (Some r)"
    by (auto simp: TSTypeLiteral_listener_def split: if_splits)
  from len obtain m where m: "l_members l = [m]"
    by (cases "l_members l") auto
  with cm checkMember_report_callable[of sc m "TypeLiteral l" r] show ?thesis
    by simp
qed

lemma literal_not_callable:
  assumes "l_members l = [m]" and "\<not> isCallableWithReturnType m"
  shows "TSTypeLiteral_listener sc l = Inr None"
  using assms checkMember_not_callable[of m sc "TypeLiteral l"]
  by (simp add: TSTypeLiteral_listener_def)

text \<open>
  A type literal is reported when its only member is a call or construct signature with
  a written return type, as long as no \<open>this\<close> is to be substituted.
\<close>

lemma forEachParam_without_this:
  "filter isThisParam ps = [] \<Longrightarrow> forEachParam parent ps lhs = Inr lhs"
  by (induction ps arbitrary: lhs) (auto split: if_splits)

lemma literal_reports_without_this:
  assumes m: "l_members l = [m]"
    and c: "isCallableWithReturnType m"
    and ann: "m_returnType m = Some ann"
    and res: "getReturnType (ty_typeAnnotation ann) = Inr None"
    and ps: "filter isThisParam (m_params m) = []"
  shows "\<exists>r. TSTypeLiteral_listener sc l = Inr (Some r)"
proof -
  from ann res forEachParam_without_this[OF ps]
  have "\<exists>a. assembleSuggestion sc m (TypeLiteral l) = Inr a"
    by (simp add: assembleSuggestion_def Let_def)
  then have "\<exists>s. renderSuggestion sc m (TypeLiteral l) = Inr s"
    by (auto simp: renderSuggestion_def Let_def)
  with m c show ?thesis
    by (auto simp: TSTypeLiteral_listener_def checkMember_def isCallableWithReturnType_def)
qed

subsection \<open>The rule on the example files\<close>

lemma listener_interface_void:
  "TSInterfaceDeclaration_listener src_void interface_void
   = Inr (Some (report call_void ''Interface'' ''type Foo = () => void'' 0 26))"
  by code_simp

lemma listener_interface_extends_Function:
  "TSInterfaceDeclaration_listener src_extends_Function interface_extends_Function
   = Inr (Some (report call_extends_Function ''Interface'' ''type Foo = () => void'' 0 43))"
  by code_simp

text \<open>\<open>interface Foo { (): this }\<close> becomes \<open>type Foo = () => Foo\<close>.\<close>

lemma listener_interface_this:
  "TSInterfaceDeclaration_listener src_this interface_this
   = Inr (Some (report call_this ''Interface'' ''type Foo = () => Foo'' 0 26))"
  by code_simp

text \<open>A \<open>this\<close> type two function types deep is left as it is.\<close>

lemma listener_interface_nested:
  "TSInterfaceDeclaration_listener src_nested interface_nested
   = Inr (Some (report call_nested ''Interface'' ''type Foo = () => () => () => this'' 0 38))"
  by code_simp

text \<open>\<open>interface Foo { (x: this): void }\<close> becomes \<open>type Foo = (x: Foo) => void\<close>.\<close>

lemma listener_interface_param_this:
  "TSInterfaceDeclaration_listener src_param_this interface_param_this
   = Inr (Some (report call_param_this ''Interface'' ''type Foo = (x: Foo) => void'' 0 33))"
  by code_simp

lemma listener_interface_generic:
  "TSInterfaceDeclaration_listener src_generic interface_generic
   = Inr (Some (report call_generic ''Interface'' ''type Foo<T> = (x: T) => T'' 0 30))"
  by code_simp

lemma assemble_literal_void_union:
  "assembleSuggestion src_union call_literal_void (TypeLiteral literal_union)
   = Inr ''() => void''"
  by code_simp

lemma assemble_literal_void_bare:
  "assembleSuggestion src_bare call_literal_void (TypeLiteral literal_bare)
   = Inr ''() => void''"
  by code_simp

lemma checkMember_interface_declare:
  "checkMember src_declare call_declare (InterfaceDeclaration interface_declare)
   = Inr (Some (report call_declare ''Interface'' ''type Foo = () => void'' 8 34))"
  by code_simp

lemma tokensInOrder_declare: "tokensInOrder src_declare"
  by code_simp

lemma listener_interface_declare:
  "TSInterfaceDeclaration_listener src_declare interface_declare
   = Inr (Some (report call_declare ''Interface'' ''type Foo = () => void'' 8 34))"
  by code_simp

lemma checkMember_literal_bare:
  "checkMember src_bare call_literal_void (TypeLiteral literal_bare)
   = Inr (Some (report call_literal_void ''Type literal'' ''() => void'' 9 21))"
  by code_simp

lemma listener_literal_bare:
  "TSTypeLiteral_listener src_bare literal_bare
   = Inr (Some (report call_literal_void ''Type literal'' ''() => void'' 9 21))"
  by code_simp

lemma tokensInOrder_bare: "tokensInOrder src_bare"
  by code_simp







subsection \<open>Interfaces and their extends clauses\<close>

text \<open>
  C1 (as amended). An interface with no extends clause, or with the bare identifier
  \<open>Function\<close> as its only extends clause, is reported if and only if its body has
  exactly one member and that member is a call signature or a construct signature with a
  written return type. The tree is well formed, and the tokens of the declaration
  include its \<open>interface\<close> keyword.
\<close>

theorem interface_without_supertype_matched_iff:
  assumes ext: "i_extends n = None \<or> i_extends n = Some []
      \<or> (\<exists>h. i_extends n = Some [h] \<and> ex_type (h_expression h) = Identifier
             \<and> ex_name (h_expression h) = Some ''Function'')"
    and kw: "\<exists>t \<in> set (getTokens sc (i_range n)). isInterfaceKeyword t"
    and wf: "\<forall>m \<in> set (i_body n). wellFormedMember m"
  shows "(\<exists>r. TSInterfaceDeclaration_listener sc n = Inr (Some r))
         \<longleftrightarrow> (\<exists>m. i_body n = [m] \<and> isCallableWithReturnType m)"
proof -
  from ext have h: "\<not> hasOneSupertype n"
    by (auto simp: hasOneSupertype_def)
  show ?thesis
  proof
    assume "\<exists>r. TSInterfaceDeclaration_listener sc n = Inr (Some r)"
    then obtain r where r: "TSInterfaceDeclaration_listener sc n = Inr (Some r)" ..
    then have len: "length (i_body n) = 1"
      and cm: "checkMember sc (i_body n ! 0) (InterfaceDeclaration n) = Inr (Some r)"
      by (auto simp: TSInterfaceDeclaration_listener_def split: if_splits)
    from len obtain m where m: "i_body n = [m]"
      by (cases "i_body n") auto
    with cm checkMember_report_callable[of sc m "InterfaceDeclaration n" r]
    show "\<exists>m. i_body n = [m] \<and> isCallableWithReturnType m" by simp
  next
    assume "\<exists>m. i_body n = [m] \<and> isCallableWithReturnType m"
    then obtain m where m: "i_body n = [m]" and c: "isCallableWithReturnType m" by blast
    from wf m have "wellFormedMember m" by simp
    from checkMember_interface_reports[OF c this kw]
    show "\<exists>r. TSInterfaceDeclaration_listener sc n = Inr (Some r)"
      using h m by (simp add: TSInterfaceDeclaration_listener_def)
  qed
qed

text \<open>
  The interface \<open>interface Foo { (): void }\<close> has no extends clause and is reported,
  and so is \<open>interface Foo extends Function { (): void }\<close>.
\<close>

theorem interface_without_supertype_matched_counterexample:
  "i_extends interface_void = None
   \<and> TSInterfaceDeclaration_listener src_void interface_void
     = Inr (Some (report call_void ''Interface'' ''type Foo = () => void'' 0 26))
   \<and> i_extends interface_extends_Function = Some [heritage ''Function'']
   \<and> TSInterfaceDeclaration_listener src_extends_Function interface_extends_Function
     = Inr (Some (report call_extends_Function ''Interface'' ''type Foo = () => void'' 0 43))"
  by (simp add: listener_interface_void listener_interface_extends_Function)
     (simp add: interface_void_def interface_extends_Function_def)

theorem interface_without_supertype_matched_iff_witness:
  "i_extends interface_extends_Function = Some [heritage ''Function'']
   \<and> i_body interface_extends_Function = [call_extends_Function]
   \<and> isCallableWithReturnType call_extends_Function
   \<and> (\<exists>r. TSInterfaceDeclaration_listener src_extends_Function interface_extends_Function
            = Inr (Some r))"
proof -
  have ext: "i_extends interface_extends_Function = None
      \<or> i_extends interface_extends_Function = Some []
      \<or> (\<exists>h. i_extends interface_extends_Function = Some [h]
             \<and> ex_type (h_expression h) = Identifier
             \<and> ex_name (h_expression h) = Some ''Function'')"
    by (simp add: interface_extends_Function_def heritage_def)
  have kw: "\<exists>t \<in> set (getTokens src_extends_Function (i_range interface_extends_Function)).
              isInterfaceKeyword t"
    by (simp add: interface_extends_Function_def src_extends_Function_def getTokens_def
        tok_def isInterfaceKeyword_def)
  have wf: "\<forall>m \<in> set (i_body interface_extends_Function). wellFormedMember m"
    by (simp add: interface_extends_Function_def call_extends_Function_def callSignature_def
        annotation_def leafType_def wellFormedMember_def)
  have body: "i_body interface_extends_Function = [call_extends_Function]"
    by (simp add: interface_extends_Function_def)
  have callable: "isCallableWithReturnType call_extends_Function"
    by (simp add: call_extends_Function_def callSignature_def isCallableWithReturnType_def)
  from interface_without_supertype_matched_iff[OF ext kw wf] body callable
  have "\<exists>r. TSInterfaceDeclaration_listener src_extends_Function interface_extends_Function
            = Inr (Some r)"
    by simp
  with body callable show ?thesis
    by (simp add: interface_extends_Function_def)
qed

text \<open>
  C2 (as amended). An interface with exactly one extends clause whose expression is not
  the bare identifier \<open>Function\<close>, or with more than one extends clause, is never
  reported, whatever its members are.
\<close>

theorem interface_with_supertype_never_matched:
  assumes "i_extends n = Some exts"
    and "1 < length exts
         \<or> (\<exists>h. exts = [h] \<and> (ex_type (h_expression h) \<noteq> Identifier
                              \<or> ex_name (h_expression h) \<noteq> Some ''Function''))"
  shows "TSInterfaceDeclaration_listener sc n = Inr None"
proof -
  from assms have "hasOneSupertype n"
    by (auto simp: hasOneSupertype_def Let_def)
  then show ?thesis
    by (simp add: TSInterfaceDeclaration_listener_def)
qed

text \<open>
  The interface \<open>interface Foo extends Bar { (): void }\<close> has one member, a call
  signature with a written return type, and is not reported.
\<close>

theorem interface_with_supertype_matched_counterexample:
  "i_extends interface_extends_Bar = Some [heritage ''Bar'']
   \<and> i_body interface_extends_Bar = [call_extends_Bar]
   \<and> isCallableWithReturnType call_extends_Bar
   \<and> TSInterfaceDeclaration_listener src_extends_Bar interface_extends_Bar = Inr None"
  by (simp add: interface_extends_Bar_def call_extends_Bar_def callSignature_def
      isCallableWithReturnType_def TSInterfaceDeclaration_listener_def hasOneSupertype_def
      heritage_def)

theorem interface_with_supertype_never_matched_witness:
  "TSInterfaceDeclaration_listener src_extends_Bar interface_extends_Bar = Inr None"
proof -
  have ext: "i_extends interface_extends_Bar = Some [heritage ''Bar'']"
    by (simp add: interface_extends_Bar_def)
  have other: "1 < length [heritage ''Bar'']
         \<or> (\<exists>h. [heritage ''Bar''] = [h]
                \<and> (ex_type (h_expression h) \<noteq> Identifier
                   \<or> ex_name (h_expression h) \<noteq> Some ''Function''))"
    by (simp add: heritage_def)
  show ?thesis
    by (rule interface_with_supertype_never_matched[OF ext other])
qed

subsection \<open>Type literals\<close>

text \<open>
  C3. A type literal whose only member is a call signature with a written return type
  is to be reported. For \<open>type T = { (): this }\<close> the listener reports nothing: it throws,
  because \<open>renderSuggestion\<close> reads \<open>parent.id.name\<close> and a type literal has no \<open>id\<close>.
\<close>

theorem literal_this_throws:
  "l_members literal_this = [call_literal_this]
   \<and> isCallableWithReturnType call_literal_this
   \<and> TSTypeLiteral_listener src_literal_this literal_this = Inl TypeError"
  by code_simp

text \<open>
  C4. On a well-formed tree the rule is never to throw. \<open>renderSuggestion\<close> throws on a
  type literal whose call signature returns \<open>this\<close>, and on one whose call signature
  takes a parameter of type \<open>this\<close>: both read \<open>parent.id.name\<close> where there is no \<open>id\<close>.
\<close>

theorem renderSuggestion_literal_this_throws:
  "wellFormedMember call_literal_this
   \<and> renderSuggestion src_literal_this call_literal_this (TypeLiteral literal_this)
     = Inl TypeError
   \<and> wellFormedMember call_literal_param_this
   \<and> renderSuggestion src_literal_param_this call_literal_param_this
       (TypeLiteral literal_param_this)
     = Inl TypeError"
  by code_simp

subsection \<open>The substitution of \<open>this\<close>\<close>

text \<open>
  C5. The \<open>this\<close> type that \<open>getReturnType\<close> resolves is to be rewritten to the name of
  the declaration. In \<open>interface Foo { (): (this: Foo) => this }\<close> the resolved type is
  the last word of the signature, at offsets 35 to 39; the suggestion renames the
  parameter \<open>this\<close> and leaves the resolved type as it was.
\<close>

theorem return_this_token_not_rewritten:
  "getReturnType (ty_typeAnnotation returnType_this_parameter) = Inr (Some (35, 39))
   \<and> slice (getText src_this_parameter) 35 39 = ''this''
   \<and> TSInterfaceDeclaration_listener src_this_parameter interface_this_parameter
     = Inr (Some (report call_this_parameter ''Interface''
                    ''type Foo = () => (Foo: Foo) => this'' 0 41))"
  by code_simp

text \<open>
  C6. Every parameter of type \<open>this\<close> is to have one \<open>this\<close> of the parameter list
  replaced by the name of the declaration. In \<open>interface $$ { (x: this): void }\<close> the
  name is \<open>$$\<close> and the text put in place of \<open>this\<close> is \<open>$\<close>: the name is passed to
  \<open>String.prototype.replace\<close> as a replacement template.
\<close>

theorem param_this_replaced_by_template:
  "id_name (i_id interface_dollar) = ''$$''
   \<and> length (filter isThisParam (m_params call_dollar)) = 1
   \<and> TSInterfaceDeclaration_listener src_dollar interface_dollar
     = Inr (Some (report call_dollar ''Interface'' ''type $$ = (x: $) => void'' 0 32))"
  by code_simp



subsection \<open>The shape of the suggestion\<close>

text \<open>
  C7. For every reported interface with type parameters, the suggestion is a type alias
  whose head is the source text from the start of the name to the end of the type
  parameters, taken as it is written; the fix carries the same text.
\<close>

theorem generic_interface_alias:
  assumes tp: "i_typeParameters n = Some tp"
    and rep: "TSInterfaceDeclaration_listener sc n = Inr (Some r)"
  shows "\<exists>assembled.
           assembleSuggestion sc (i_body n ! 0) (InterfaceDeclaration n) = Inr assembled
           \<and> r_sigSuggestion r
             = ''type '' @ slice (getText sc) (int (fst (id_range (i_id n)))) (int (snd tp))
               @ '' = ''
               @ (if i_parent n \<in> wrappingParents then ''('' @ assembled @ '')''
                  else assembled)
           \<and> fix_text (r_fix r) = r_sigSuggestion r"
proof -
  from rep have cm: "checkMember sc (i_body n ! 0) (InterfaceDeclaration n) = Inr (Some r)"
    by (auto simp: TSInterfaceDeclaration_listener_def split: if_splits)
  from checkMember_report[OF cm]
  have rs: "renderSuggestion sc (i_body n ! 0) (InterfaceDeclaration n)
            = Inr (r_sigSuggestion r)"
    and ft: "fix_text (r_fix r) = r_sigSuggestion r"
    by auto
  from rs obtain assembled
    where a: "assembleSuggestion sc (i_body n ! 0) (InterfaceDeclaration n) = Inr assembled"
    by (auto simp: renderSuggestion_def split: sum.splits)
  from rs a tp ft show ?thesis
    by (auto simp: renderSuggestion_def shouldWrapSuggestion_iff)
qed

text \<open>
  The rule reports \<open>interface Foo<T> { (x: T): T }\<close>, and the suggestion and the text
  of the fix are \<open>type Foo<T> = (x: T) => T\<close>, where \<open>Foo<T>\<close> is the source text from
  offset 10 to offset 16.
\<close>

theorem generic_interface_alias_witness:
  "TSInterfaceDeclaration_listener src_generic interface_generic
   = Inr (Some (report call_generic ''Interface'' ''type Foo<T> = (x: T) => T'' 0 30))
   \<and> i_typeParameters interface_generic = Some (13, 16)
   \<and> slice (getText src_generic) (int (fst (id_range (i_id interface_generic)))) 16
     = ''Foo<T>''
   \<and> assembleSuggestion src_generic call_generic (InterfaceDeclaration interface_generic)
     = Inr ''(x: T) => T''
   \<and> (\<exists>r. TSInterfaceDeclaration_listener src_generic interface_generic = Inr (Some r)
          \<and> r_sigSuggestion r = ''type Foo<T> = (x: T) => T''
          \<and> fix_text (r_fix r) = ''type Foo<T> = (x: T) => T'')"
proof -
  let ?r = "report call_generic ''Interface'' ''type Foo<T> = (x: T) => T'' 0 30"
  have tp: "i_typeParameters interface_generic = Some (13, 16)"
    by (simp add: interface_generic_def)
  have head: "slice (getText src_generic) (int (fst (id_range (i_id interface_generic)))) 16
              = ''Foo<T>''"
    by code_simp
  have above: "i_parent interface_generic \<notin> wrappingParents"
    by (simp add: interface_generic_def wrappingParents_def)
  have member: "i_body interface_generic ! 0 = call_generic"
    by (simp add: interface_generic_def)
  from generic_interface_alias[OF tp listener_interface_generic]
  obtain assembled
    where a: "assembleSuggestion src_generic (i_body interface_generic ! 0)
                (InterfaceDeclaration interface_generic) = Inr assembled"
      and s: "r_sigSuggestion ?r
              = ''type ''
                @ slice (getText src_generic) (int (fst (id_range (i_id interface_generic))))
                    (int (snd (13::nat, 16::nat)))
                @ '' = ''
                @ (if i_parent interface_generic \<in> wrappingParents
                   then ''('' @ assembled @ '')'' else assembled)"
      and f: "fix_text (r_fix ?r) = r_sigSuggestion ?r"
    by blast
  from s above have sig: "r_sigSuggestion ?r = ''type '' @ ''Foo<T>'' @ '' = '' @ assembled"
    by (simp add: head)
  moreover have "r_sigSuggestion ?r = ''type Foo<T> = (x: T) => T''"
    by (simp add: report_def)
  ultimately have assembled: "assembled = ''(x: T) => T''"
    by simp
  from sig f assembled
  have "r_sigSuggestion ?r = ''type Foo<T> = (x: T) => T''
        \<and> fix_text (r_fix ?r) = ''type Foo<T> = (x: T) => T''"
    by simp
  with listener_interface_generic
  have "\<exists>r. TSInterfaceDeclaration_listener src_generic interface_generic = Inr (Some r)
          \<and> r_sigSuggestion r = ''type Foo<T> = (x: T) => T''
          \<and> fix_text (r_fix r) = ''type Foo<T> = (x: T) => T''"
    by blast
  with listener_interface_generic tp head a member assembled show ?thesis
    by simp
qed

text \<open>
  C8. The assembled function type is put in parentheses if and only if the node above
  the interface or type literal is a union type, an intersection type or an array
  type; with any other node above, or none, it is not.
\<close>

theorem suggestion_parenthesized_iff:
  assumes "assembleSuggestion sc call parent = Inr assembled"
  shows "renderSuggestion sc call parent =
         (case parent of
            InterfaceDeclaration n \<Rightarrow>
              Inr (typeAliasHead sc n
                   @ (if i_parent n \<in> wrappingParents then ''('' @ assembled @ '')''
                      else assembled))
          | TypeLiteral l \<Rightarrow>
              Inr (if l_parent l \<in> wrappingParents then ''('' @ assembled @ '')''
                   else if endsWith assembled '';'' then slice assembled 0 (- 1)
                   else assembled))"
  using assms
  by (cases parent)
     (auto simp: renderSuggestion_def typeAliasHead_def shouldWrapSuggestion_iff
        endsWith_parenthesized Let_def split: option.splits)

text \<open>
  The literal \<open>{ (): void }\<close> gives \<open>(() => void)\<close> in \<open>{ (): void } | string\<close> and
  \<open>() => void\<close> when it stands alone.
\<close>

theorem suggestion_parenthesized_iff_witness:
  "renderSuggestion src_union call_literal_void (TypeLiteral literal_union)
   = Inr ''(() => void)''
   \<and> renderSuggestion src_bare call_literal_void (TypeLiteral literal_bare)
     = Inr ''() => void''"
  using suggestion_parenthesized_iff[OF assemble_literal_void_union]
    suggestion_parenthesized_iff[OF assemble_literal_void_bare]
  by (simp add: literal_union_def literal_bare_def wrappingParents_def endsWith_def)

subsection \<open>The range of the fix\<close>

text \<open>
  C9. The range of every fix starts at or before the start of the reported member and
  ends at the end of the enclosing node, after the end of the member: it starts at the
  start of a type literal, and at the start of the first \<open>interface\<close> keyword among the
  tokens of an interface declaration. The member lies within the node, the tokens are
  in the order of the text, and the \<open>interface\<close> keyword of a declaration stands before
  its members.
\<close>

theorem fix_range_encloses_member:
  assumes rep: "checkMember sc member node = Inr (Some r)"
    and inside: "fst (node_range node) \<le> fst (m_range member)"
      "snd (m_range member) \<le> snd (node_range node)"
    and order: "tokensInOrder sc"
    and kw: "node_type node = TSInterfaceDeclaration \<longrightarrow>
             (\<exists>t \<in> set (getTokens sc (node_range node)).
                isInterfaceKeyword t \<and> fst (tok_range t) \<le> fst (m_range member))"
  shows "fst (fix_range (r_fix r)) \<le> fst (m_range member)
         \<and> snd (m_range member) \<le> snd (fix_range (r_fix r))
         \<and> snd (fix_range (r_fix r)) = snd (node_range node)
         \<and> (case node of
               TypeLiteral l \<Rightarrow> fst (fix_range (r_fix r)) = fst (l_range l)
             | InterfaceDeclaration n \<Rightarrow>
                 (\<exists>t ts. filter isInterfaceKeyword (getTokens sc (i_range n)) = t # ts
                    \<and> fst (fix_range (r_fix r)) = fst (tok_range t)))"
proof (cases node)
  case (TypeLiteral l)
  with checkMember_report[OF rep] inside show ?thesis by auto
next
  case (InterfaceDeclaration n)
  with checkMember_report[OF rep] obtain t ts
    where f: "filter isInterfaceKeyword (getTokens sc (i_range n)) = t # ts"
      and s: "fst (fix_range (r_fix r)) = fst (tok_range t)"
      and e: "snd (fix_range (r_fix r)) = snd (node_range node)"
    by auto
  from kw InterfaceDeclaration obtain t'
    where t': "t' \<in> set (getTokens sc (i_range n))" "isInterfaceKeyword t'"
      "fst (tok_range t') \<le> fst (m_range member)"
    by auto
  from order
  have "sorted_wrt (\<lambda>s t. fst (tok_range s) \<le> fst (tok_range t)) (getTokens sc (i_range n))"
    unfolding tokensInOrder_def getTokens_def by (rule sorted_wrt_filter)
  from first_of_filter_sorted[OF this f t'(1,2)] t'(3)
  have "fst (tok_range t) \<le> fst (m_range member)" by simp
  with f s e inside InterfaceDeclaration show ?thesis by auto
qed

text \<open>
  In \<open>declare interface Foo { (): void }\<close> the declaration starts at offset 0 with the
  modifier, the keyword at offset 8 and the member at offset 24; the rule reports the
  member with a fix that replaces the offsets 8 to 34. In \<open>type T = { (): void }\<close> the
  literal stands at the offsets 9 to 21 and the member at offset 11; the rule reports
  the member with a fix that replaces the offsets 9 to 21.
\<close>

theorem fix_range_encloses_member_witness:
  "checkMember src_declare call_declare (InterfaceDeclaration interface_declare)
   = Inr (Some (report call_declare ''Interface'' ''type Foo = () => void'' 8 34))
   \<and> TSInterfaceDeclaration_listener src_declare interface_declare
     = Inr (Some (report call_declare ''Interface'' ''type Foo = () => void'' 8 34))
   \<and> m_range call_declare = (24, 32)
   \<and> i_range interface_declare = (0, 34)
   \<and> (\<exists>r. checkMember src_declare call_declare (InterfaceDeclaration interface_declare)
            = Inr (Some r)
          \<and> fix_range (r_fix r) = (8, 34)
          \<and> fst (fix_range (r_fix r)) \<le> fst (m_range call_declare)
          \<and> snd (m_range call_declare) \<le> snd (fix_range (r_fix r))
          \<and> snd (fix_range (r_fix r)) = snd (i_range interface_declare)
          \<and> (\<exists>t ts. filter isInterfaceKeyword
                        (getTokens src_declare (i_range interface_declare)) = t # ts
                 \<and> tok_range t = (8, 17)
                 \<and> fst (fix_range (r_fix r)) = fst (tok_range t)))
   \<and> TSTypeLiteral_listener src_bare literal_bare
     = Inr (Some (report call_literal_void ''Type literal'' ''() => void'' 9 21))
   \<and> m_range call_literal_void = (11, 19)
   \<and> l_range literal_bare = (9, 21)
   \<and> (\<exists>r. checkMember src_bare call_literal_void (TypeLiteral literal_bare) = Inr (Some r)
          \<and> fix_range (r_fix r) = (9, 21)
          \<and> fst (fix_range (r_fix r)) \<le> fst (m_range call_literal_void)
          \<and> snd (m_range call_literal_void) \<le> snd (fix_range (r_fix r))
          \<and> snd (fix_range (r_fix r)) = snd (l_range literal_bare)
          \<and> fst (fix_range (r_fix r)) = fst (l_range literal_bare))"
proof -
  let ?ri = "report call_declare ''Interface'' ''type Foo = () => void'' 8 34"
  let ?rl = "report call_literal_void ''Type literal'' ''() => void'' 9 21"
  have m: "m_range call_declare = (24, 32)"
    by (simp add: call_declare_def callSignature_def annotation_def leafType_def)
  have n: "i_range interface_declare = (0, 34)"
    by (simp add: interface_declare_def)
  have inside: "fst (node_range (InterfaceDeclaration interface_declare))
                \<le> fst (m_range call_declare)"
    "snd (m_range call_declare) \<le> snd (node_range (InterfaceDeclaration interface_declare))"
    by (simp_all add: m n)
  have kw: "node_type (InterfaceDeclaration interface_declare) = TSInterfaceDeclaration \<longrightarrow>
             (\<exists>t \<in> set (getTokens src_declare
                          (node_range (InterfaceDeclaration interface_declare))).
                isInterfaceKeyword t \<and> fst (tok_range t) \<le> fst (m_range call_declare))"
    by (simp add: m n src_declare_def getTokens_def tok_def isInterfaceKeyword_def)
  have first: "filter isInterfaceKeyword (getTokens src_declare (i_range interface_declare))
               = [tok KeywordToken ''interface'' 8 17]"
    by (simp add: n src_declare_def getTokens_def tok_def isInterfaceKeyword_def)
  from fix_range_encloses_member
         [OF checkMember_interface_declare inside tokensInOrder_declare kw]
  have i: "fst (fix_range (r_fix ?ri)) \<le> fst (m_range call_declare)
           \<and> snd (m_range call_declare) \<le> snd (fix_range (r_fix ?ri))
           \<and> snd (fix_range (r_fix ?ri)) = snd (i_range interface_declare)
           \<and> (\<exists>t ts. filter isInterfaceKeyword
                         (getTokens src_declare (i_range interface_declare)) = t # ts
                  \<and> fst (fix_range (r_fix ?ri)) = fst (tok_range t))"
    by simp
  then have "fst (fix_range (r_fix ?ri)) = 8"
    by (simp add: first tok_def)
  moreover from i n have "snd (fix_range (r_fix ?ri)) = 34" by simp
  ultimately have ri: "fix_range (r_fix ?ri) = (8, 34)"
    by (simp add: prod_eq_iff)
  from i ri first
  have "fix_range (r_fix ?ri) = (8, 34)
        \<and> fst (fix_range (r_fix ?ri)) \<le> fst (m_range call_declare)
        \<and> snd (m_range call_declare) \<le> snd (fix_range (r_fix ?ri))
        \<and> snd (fix_range (r_fix ?ri)) = snd (i_range interface_declare)
        \<and> (\<exists>t ts. filter isInterfaceKeyword
                      (getTokens src_declare (i_range interface_declare)) = t # ts
               \<and> tok_range t = (8, 17)
               \<and> fst (fix_range (r_fix ?ri)) = fst (tok_range t))"
    by (simp add: tok_def)
  with checkMember_interface_declare
  have interface:
    "\<exists>r. checkMember src_declare call_declare (InterfaceDeclaration interface_declare)
            = Inr (Some r)
          \<and> fix_range (r_fix r) = (8, 34)
          \<and> fst (fix_range (r_fix r)) \<le> fst (m_range call_declare)
          \<and> snd (m_range call_declare) \<le> snd (fix_range (r_fix r))
          \<and> snd (fix_range (r_fix r)) = snd (i_range interface_declare)
          \<and> (\<exists>t ts. filter isInterfaceKeyword
                        (getTokens src_declare (i_range interface_declare)) = t # ts
                 \<and> tok_range t = (8, 17)
                 \<and> fst (fix_range (r_fix r)) = fst (tok_range t))"
    by blast
  have ml: "m_range call_literal_void = (11, 19)"
    by (simp add: call_literal_void_def callSignature_def annotation_def leafType_def)
  have nl: "l_range literal_bare = (9, 21)"
    by (simp add: literal_bare_def)
  have inside_l: "fst (node_range (TypeLiteral literal_bare)) \<le> fst (m_range call_literal_void)"
    "snd (m_range call_literal_void) \<le> snd (node_range (TypeLiteral literal_bare))"
    by (simp_all add: ml nl)
  have kw_l: "node_type (TypeLiteral literal_bare) = TSInterfaceDeclaration \<longrightarrow>
             (\<exists>t \<in> set (getTokens src_bare (node_range (TypeLiteral literal_bare))).
                isInterfaceKeyword t \<and> fst (tok_range t) \<le> fst (m_range call_literal_void))"
    by simp
  from fix_range_encloses_member
         [OF checkMember_literal_bare inside_l tokensInOrder_bare kw_l]
  have l: "fst (fix_range (r_fix ?rl)) \<le> fst (m_range call_literal_void)
           \<and> snd (m_range call_literal_void) \<le> snd (fix_range (r_fix ?rl))
           \<and> snd (fix_range (r_fix ?rl)) = snd (l_range literal_bare)
           \<and> fst (fix_range (r_fix ?rl)) = fst (l_range literal_bare)"
    by simp
  with nl have "fix_range (r_fix ?rl) = (9, 21)"
    by (simp add: prod_eq_iff)
  with l checkMember_literal_bare
  have literal:
    "\<exists>r. checkMember src_bare call_literal_void (TypeLiteral literal_bare) = Inr (Some r)
          \<and> fix_range (r_fix r) = (9, 21)
          \<and> fst (fix_range (r_fix r)) \<le> fst (m_range call_literal_void)
          \<and> snd (m_range call_literal_void) \<le> snd (fix_range (r_fix r))
          \<and> snd (fix_range (r_fix r)) = snd (l_range literal_bare)
          \<and> fst (fix_range (r_fix r)) = fst (l_range literal_bare)"
    by blast
  from checkMember_interface_declare listener_interface_declare m n interface
    listener_literal_bare ml nl literal
  show ?thesis
    by (simp only: simp_thms)
qed

end
